theory Spec2Isabelle
  imports Main
begin

section \<open>Python strings and dictionaries\<close>

text \<open>
  A Python \<open>str\<close> is modelled as a \<open>string\<close>, one list element per code point.
  \<open>startswith\<close> and \<open>removeprefix\<close> are the two string methods that
  \<open>MountedServer\<close> uses.
\<close>

fun startswith :: "string \<Rightarrow> string \<Rightarrow> bool" where
  "startswith s [] = True"
| "startswith [] (p # ps) = False"
| "startswith (c # s) (p # ps) = (c = p \<and> startswith s ps)"

definition removeprefix :: "string \<Rightarrow> string \<Rightarrow> string" where
  "removeprefix s p = (if startswith s p then drop (length p) s else s)"

text \<open>
  A Python \<open>dict\<close> keeps its keys in insertion order, and \<open>for ... in d.values()\<close>
  visits them in that order; it is an association list with one pair per key.
  \<open>d[k] = v\<close> replaces the value in place when the key is present and appends
  the pair otherwise.
\<close>

type_synonym ('k, 'v) dict = "('k \<times> 'v) list"

definition dict_get :: "('k, 'v) dict \<Rightarrow> 'k \<Rightarrow> 'v option" where
  "dict_get d k = map_of d k"

definition dict_contains :: "('k, 'v) dict \<Rightarrow> 'k \<Rightarrow> bool" where
  "dict_contains d k = (k \<in> set (map fst d))"

fun dict_set :: "('k, 'v) dict \<Rightarrow> 'k \<Rightarrow> 'v \<Rightarrow> ('k, 'v) dict" where
  "dict_set [] k v = [(k, v)]"
| "dict_set ((k', v') # d) k v =
     (if k' = k then (k, v) # d else (k', v') # dict_set d k v)"

text \<open>\<open>d.update(other)\<close>: one \<open>d[k] = v\<close> per pair of \<open>other\<close>, in its order.\<close>

fun dict_update :: "('k, 'v) dict \<Rightarrow> ('k, 'v) dict \<Rightarrow> ('k, 'v) dict" where
  "dict_update d [] = d"
| "dict_update d ((k, v) # other) = dict_update (dict_set d k v) other"

text \<open>\<open>d.clear()\<close>.\<close>

definition dict_clear :: "('k, 'v) dict \<Rightarrow> ('k, 'v) dict" where
  "dict_clear d = []"

section \<open>Exceptions\<close>

text \<open>
  The exceptions that leave the functions modelled here. \<open>NotFoundError\<close> and
  \<open>ResourceError\<close> are imported from \<open>fastmcp.exceptions\<close> and carry their
  message; \<open>KeyError\<close> is what \<open>dict.pop\<close> raises for a missing key and carries
  the key. \<open>Raised\<close> stands for any other \<open>Exception\<close> that an item's own
  code raises, with the text that \<open>str(e)\<close> gives.
  \<open>OverflowError\<close> is what the addition of a \<open>timedelta\<close> to a
  \<open>datetime\<close> raises when the sum is no \<open>datetime\<close>.
  \<open>DuplicateKeyError\<close> and \<open>ConfigurationError\<close> are the two names of the
  specification's error taxonomy that \<open>server.py\<close> itself never raises: the
  first belongs to the leaf registries, the second has no counterpart in the source.
\<close>

datatype error =
    NotFoundError string
  | ResourceError string
  | KeyError string
  | Raised string
  | OverflowError string
  | DuplicateKeyError string
  | is_ConfigurationError: ConfigurationError string

section \<open>MountedServer\<close>

text \<open>
  A mounted server holds a reference to another \<open>FastMCP\<close> object; servers live
  in a store and the reference is the server's address there.
\<close>

type_synonym ref = nat

record MountedServer =
  server :: ref
  prefix :: string
  tool_separator :: string
  resource_separator :: string
  prompt_separator :: string

definition MountedServer_init ::
  "string \<Rightarrow> ref \<Rightarrow> string option \<Rightarrow> string option \<Rightarrow> string option \<Rightarrow> MountedServer" where
  "MountedServer_init pfx srv tool_sep resource_sep prompt_sep =
     \<lparr> server = srv,
       prefix = pfx,
       tool_separator = (case tool_sep of None \<Rightarrow> ''_'' | Some s \<Rightarrow> s),
       resource_separator = (case resource_sep of None \<Rightarrow> ''+'' | Some s \<Rightarrow> s),
       prompt_separator = (case prompt_sep of None \<Rightarrow> ''_'' | Some s \<Rightarrow> s) \<rparr>"

definition match_tool :: "MountedServer \<Rightarrow> string \<Rightarrow> bool" where
  "match_tool m key = startswith key (prefix m @ tool_separator m)"

definition strip_tool_prefix :: "MountedServer \<Rightarrow> string \<Rightarrow> string" where
  "strip_tool_prefix m key = removeprefix key (prefix m @ tool_separator m)"

definition match_resource :: "MountedServer \<Rightarrow> string \<Rightarrow> bool" where
  "match_resource m key = startswith key (prefix m @ resource_separator m)"

definition strip_resource_prefix :: "MountedServer \<Rightarrow> string \<Rightarrow> string" where
  "strip_resource_prefix m key = removeprefix key (prefix m @ resource_separator m)"

definition match_prompt :: "MountedServer \<Rightarrow> string \<Rightarrow> bool" where
  "match_prompt m key = startswith key (prefix m @ prompt_separator m)"

definition strip_prompt_prefix :: "MountedServer \<Rightarrow> string \<Rightarrow> string" where
  "strip_prompt_prefix m key = removeprefix key (prefix m @ prompt_separator m)"

section \<open>TimedCache\<close>

text \<open>
  \<open>datetime.datetime\<close> and \<open>datetime.timedelta\<close> count whole microseconds, so
  a point in time and a duration are integers. A point in time is the number of
  microseconds since \<open>datetime.min\<close>, the first instant of the year 1;
  \<open>datetime.max\<close>, the last microsecond of the year 9999, is 3652059 days of
  86400000000 microseconds later, less one microsecond. \<open>datetime + timedelta\<close>
  raises \<open>OverflowError\<close> when the sum lies outside these bounds.
\<close>

definition datetime_min :: int where
  "datetime_min = 0"

definition datetime_max :: int where
  "datetime_max = 3652059 * 86400000000 - 1"

definition is_datetime :: "int \<Rightarrow> bool" where
  "is_datetime t \<longleftrightarrow> datetime_min \<le> t \<and> t \<le> datetime_max"

definition datetime_add :: "int \<Rightarrow> int \<Rightarrow> error + int" where
  "datetime_add t d =
     (if is_datetime (t + d) then Inr (t + d) else Inl (OverflowError ''date value out of range''))"

text \<open>
  \<open>datetime.now()\<close> is an input of \<open>set\<close> and \<open>get\<close>: the reading of
  the clock is passed as \<open>now\<close>. \<open>set\<close> computes the expiry first, so an
  \<open>OverflowError\<close> of the addition leaves the dict as it was.
  \<open>NOT_FOUND\<close> is a fresh object of the module, identical to no cached value;
  the result of \<open>get\<close> is either that object or the cached value. \<open>get\<close>
  evaluates \<open>datetime.now()\<close> only when the key is in the dict; its result does not
  depend on \<open>now\<close> otherwise.
\<close>

datatype 'v lookup = NOT_FOUND | Found 'v

record ('k, 'v) TimedCache =
  expiration :: int
  cache :: "('k, 'v \<times> int) dict"

definition TimedCache_init :: "int \<Rightarrow> ('k, 'v) TimedCache" where
  "TimedCache_init exp = \<lparr> expiration = exp, cache = [] \<rparr>"

definition TimedCache_set ::
  "('k, 'v) TimedCache \<Rightarrow> 'k \<Rightarrow> 'v \<Rightarrow> int \<Rightarrow> error + ('k, 'v) TimedCache" where
  "TimedCache_set c key val now =
     (case datetime_add now (expiration c) of
        Inl e \<Rightarrow> Inl e
      | Inr expires \<Rightarrow> Inr (c\<lparr> cache := dict_set (cache c) key (val, expires) \<rparr>))"

definition TimedCache_get :: "('k, 'v) TimedCache \<Rightarrow> 'k \<Rightarrow> int \<Rightarrow> 'v lookup" where
  "TimedCache_get c key now =
     (case dict_get (cache c) key of
        None \<Rightarrow> NOT_FOUND
      | Some (val, expires) \<Rightarrow> if expires > now then Found val else NOT_FOUND)"

definition TimedCache_clear :: "('k, 'v) TimedCache \<Rightarrow> ('k, 'v) TimedCache" where
  "TimedCache_clear c = c\<lparr> cache := dict_clear (cache c) \<rparr>"

section \<open>Leaf registries\<close>

text \<open>
  \<open>ToolManager\<close>, \<open>ResourceManager\<close> and \<open>PromptManager\<close> are imported by
  \<open>server.py\<close>; their code is not part of it. An item (tool, resource, resource
  template or prompt) is opaque to the server and is a value of the type \<open>'i\<close>.
\<close>

text \<open>
  Modelled from the spec: the policy of a leaf registry for a write to a key that is
  already present, "reject / warn-and-overwrite / overwrite silently".
\<close>

datatype DuplicateBehavior = Dup_error | Dup_warn | Dup_overwrite


record 'i ToolManager =
  tools :: "(string, 'i) dict"
  tool_duplicate_behavior :: DuplicateBehavior

record 'i ResourceManager =
  resources :: "(string, 'i) dict"
  templates :: "(string, 'i) dict"
  resource_duplicate_behavior :: DuplicateBehavior

record 'i PromptManager =
  prompts :: "(string, 'i) dict"
  prompt_duplicate_behavior :: DuplicateBehavior

text \<open>Modelled from the spec: the leaf registries' "does key X exist".\<close>

definition has_tool :: "'i ToolManager \<Rightarrow> string \<Rightarrow> bool" where
  "has_tool tm key = dict_contains (tools tm) key"

definition has_resource :: "'i ResourceManager \<Rightarrow> string \<Rightarrow> bool" where
  "has_resource rm uri = dict_contains (resources rm) uri"

definition has_prompt :: "'i PromptManager \<Rightarrow> string \<Rightarrow> bool" where
  "has_prompt pm name = dict_contains (prompts pm) name"

text \<open>
  Modelled from the spec: the leaf registries' "invoke/render by key". \<open>run\<close> is the
  tool's own function and \<open>render\<close> the prompt's: they return a result or raise.
  \<open>get_resource\<close> hands out the resource registered under the URI.
\<close>

definition call_tool ::
  "('i \<Rightarrow> 'a \<Rightarrow> error + 'r) \<Rightarrow> 'i ToolManager \<Rightarrow> string \<Rightarrow> 'a \<Rightarrow> error + 'r" where
  "call_tool run tm key arguments =
     (case dict_get (tools tm) key of
        None \<Rightarrow> Inl (NotFoundError (''Unknown tool: '' @ key))
      | Some tool \<Rightarrow> run tool arguments)"

definition get_resource :: "'i ResourceManager \<Rightarrow> string \<Rightarrow> error + 'i" where
  "get_resource rm uri =
     (case dict_get (resources rm) uri of
        None \<Rightarrow> Inl (NotFoundError (''Unknown resource: '' @ uri))
      | Some resource \<Rightarrow> Inr resource)"

definition render_prompt ::
  "('i \<Rightarrow> 'a \<Rightarrow> error + 'm) \<Rightarrow> 'i PromptManager \<Rightarrow> string \<Rightarrow> 'a \<Rightarrow> error + 'm" where
  "render_prompt render pm name arguments =
     (case dict_get (prompts pm) name of
        None \<Rightarrow> Inl (NotFoundError (''Unknown prompt: '' @ name))
      | Some prompt \<Rightarrow> render prompt arguments)"





section \<open>FastMCP\<close>

text \<open>
  The attributes of a server that the registry logic uses; the leading underscore of a
  private attribute is written \<open>p_\<close>. The one cache of a server holds the listings
  of all four categories, each under its own key. The constructor is given the
  \<open>timedelta\<close> that it builds from \<open>settings.cache_expiration_seconds\<close>, and
  the three duplicate behaviours of the settings.
\<close>

record 'i FastMCP =
  p_cache :: "(string, (string, 'i) dict) TimedCache"
  p_mounted_servers :: "(string, MountedServer) dict"
  p_tool_manager :: "'i ToolManager"
  p_resource_manager :: "'i ResourceManager"
  p_prompt_manager :: "'i PromptManager"


text \<open>
  Servers are objects that mounts share by reference: the store maps a reference to the
  object's current state. \<open>reads\<close> counts the readings of \<open>datetime.now()\<close>
  taken so far; the clock is a function from that count to the time it shows, so that
  nothing is assumed about how time passes between two readings.
\<close>

record 'i world =
  servers :: "ref \<Rightarrow> 'i FastMCP option"
  reads :: nat

type_synonym clock = "nat \<Rightarrow> int"

subsection \<open>Listing\<close>

text \<open>
  \<open>get_tools\<close>, \<open>get_resources\<close>, \<open>get_resource_templates\<close> and \<open>get_prompts\<close>
  of \<open>FastMCP\<close> are the same text up to the cache key and the leaf registry read, and
  so are the four methods of \<open>MountedServer\<close> up to the separator; \<open>get_items\<close>
  is that text with the category as a parameter.
\<close>

datatype category = Tools | Resources | ResourceTemplates | Prompts

fun cache_key :: "category \<Rightarrow> string" where
  "cache_key Tools = ''tools''"
| "cache_key Resources = ''resources''"
| "cache_key ResourceTemplates = ''resource_templates''"
| "cache_key Prompts = ''prompts''"

fun separator :: "category \<Rightarrow> MountedServer \<Rightarrow> string" where
  "separator Tools m = tool_separator m"
| "separator Resources m = resource_separator m"
| "separator ResourceTemplates m = resource_separator m"
| "separator Prompts m = prompt_separator m"

fun local_items :: "category \<Rightarrow> 'i FastMCP \<Rightarrow> (string, 'i) dict" where
  "local_items Tools srv = tools (p_tool_manager srv)"
| "local_items Resources srv = resources (p_resource_manager srv)"
| "local_items ResourceTemplates srv = templates (p_resource_manager srv)"
| "local_items Prompts srv = prompts (p_prompt_manager srv)"

text \<open>The dict comprehension \<open>{f"{prefix}{separator}{key}": item for key, item in items.items()}\<close>.\<close>

definition prefixed :: "string \<Rightarrow> (string, 'i) dict \<Rightarrow> (string, 'i) dict" where
  "prefixed p items = dict_update [] (map (\<lambda>(key, item). (p @ key, item)) items)"

text \<open>
  \<open>MountedServer.get_tools\<close> and its three siblings; \<open>get\<close> is the listing method of
  the target server.
\<close>

definition MountedServer_get_items ::
  "('s \<Rightarrow> ref \<Rightarrow> ((error + (string, 'i) dict) \<times> 's) option) \<Rightarrow> category \<Rightarrow> 's \<Rightarrow> MountedServer
     \<Rightarrow> ((error + (string, 'i) dict) \<times> 's) option" where
  "MountedServer_get_items get cat st m =
     (case get st (server m) of
        None \<Rightarrow> None
      | Some (Inl e, st') \<Rightarrow> Some (Inl e, st')
      | Some (Inr items, st') \<Rightarrow> Some (Inr (prefixed (prefix m @ separator cat m) items), st'))"

text \<open>
  The loop \<open>for server in self._mounted_servers.values(): items.update(await server.get_...())\<close>.
  An exception of a listing ends the loop and leaves the function.
\<close>

fun for_mounted ::
  "('s \<Rightarrow> MountedServer \<Rightarrow> ((error + (string, 'i) dict) \<times> 's) option) \<Rightarrow> MountedServer list
     \<Rightarrow> (string, 'i) dict \<Rightarrow> 's \<Rightarrow> ((error + (string, 'i) dict) \<times> 's) option" where
  "for_mounted get [] items st = Some (Inr items, st)"
| "for_mounted get (m # ms) items st =
     (case get st m of
        None \<Rightarrow> None
      | Some (Inl e, st') \<Rightarrow> Some (Inl e, st')
      | Some (Inr server_items, st') \<Rightarrow> for_mounted get ms (dict_update items server_items) st')"

text \<open>
  \<open>self._cache.get(key)\<close> in a store: \<open>TimedCache.get\<close> takes the next reading
  of the clock when the key is in the dict, and none otherwise, since the \<open>and\<close> of
  its condition does not evaluate \<open>datetime.now()\<close> then.
\<close>

definition cache_get ::
  "clock \<Rightarrow> ('k, 'v) TimedCache \<Rightarrow> 'k \<Rightarrow> 'i world \<Rightarrow> 'v lookup \<times> 'i world" where
  "cache_get clock c key st =
     (case dict_get (cache c) key of
        None \<Rightarrow> (NOT_FOUND, st)
      | Some entry \<Rightarrow> (TimedCache_get c key (clock (reads st)), st\<lparr> reads := Suc (reads st) \<rparr>))"

text \<open>
  A listing recurses into the mounted servers, and nothing in the source stops a cycle of
  mounts: the recursion is bounded by \<open>fuel\<close>, and \<open>None\<close> is a call that does not
  return within it. \<open>TimedCache.set\<close> takes the next reading of the clock; when it
  raises, the listing raises, after the reading and with the caches that the listings of
  the mounted servers have filled.
\<close>

primrec get_items ::
  "nat \<Rightarrow> clock \<Rightarrow> category \<Rightarrow> 'i world \<Rightarrow> ref
     \<Rightarrow> ((error + (string, 'i) dict) \<times> 'i world) option" where
  "get_items 0 clock cat st self = None"
| "get_items (Suc fuel) clock cat st self =
     (case servers st self of
        None \<Rightarrow> None
      | Some srv \<Rightarrow>
          (case cache_get clock (p_cache srv) (cache_key cat) st of
             (Found items, st0) \<Rightarrow> Some (Inr items, st0)
           | (NOT_FOUND, st0) \<Rightarrow>
               (case for_mounted (MountedServer_get_items (get_items fuel clock cat) cat)
                       (map snd (p_mounted_servers srv)) [] st0 of
                  None \<Rightarrow> None
                | Some (Inl e, st1) \<Rightarrow> Some (Inl e, st1)
                | Some (Inr mounted_items, st1) \<Rightarrow>
                    (case servers st1 self of
                       None \<Rightarrow> None
                     | Some srv1 \<Rightarrow>
                         let items = dict_update mounted_items (local_items cat srv1)
                         in (case TimedCache_set (p_cache srv1) (cache_key cat) items
                                    (clock (reads st1)) of
                               Inl e \<Rightarrow> Some (Inl e, st1\<lparr> reads := Suc (reads st1) \<rparr>)
                             | Inr c \<Rightarrow>
                                 Some (Inr items,
                                       st1\<lparr> servers := (servers st1)(self \<mapsto> srv1\<lparr> p_cache := c \<rparr>),
                                            reads := Suc (reads st1) \<rparr>))))))"


definition get_resources ::
  "nat \<Rightarrow> clock \<Rightarrow> 'i world \<Rightarrow> ref \<Rightarrow> ((error + (string, 'i) dict) \<times> 'i world) option" where
  "get_resources fuel clock = get_items fuel clock Resources"

definition get_resource_templates ::
  "nat \<Rightarrow> clock \<Rightarrow> 'i world \<Rightarrow> ref \<Rightarrow> ((error + (string, 'i) dict) \<times> 'i world) option" where
  "get_resource_templates fuel clock = get_items fuel clock ResourceTemplates"

definition get_prompts ::
  "nat \<Rightarrow> clock \<Rightarrow> 'i world \<Rightarrow> ref \<Rightarrow> ((error + (string, 'i) dict) \<times> 'i world) option" where
  "get_prompts fuel clock = get_items fuel clock Prompts"

subsection \<open>Dispatch\<close>

text \<open>
  The loop \<open>for server in self._mounted_servers.values(): if server.match_...(key): ...\<close>
  leaves at the first mounted server that matches (by \<open>break\<close> or \<open>return\<close>), and
  runs its \<open>else\<close> branch when none does.
\<close>

fun first_match ::
  "(MountedServer \<Rightarrow> string \<Rightarrow> bool) \<Rightarrow> MountedServer list \<Rightarrow> string \<Rightarrow> MountedServer option" where
  "first_match match [] key = None"
| "first_match match (m # ms) key = (if match m key then Some m else first_match match ms key)"

text \<open>
  The three dispatchers recurse into the target of a mount; with a cycle of mounts whose
  prefixes and separators are empty the recursion does not end, and the value is
  \<open>None\<close> then. \<open>run\<close>, \<open>rd\<close> and \<open>render\<close> are the items' own code:
  they return a result or raise, \<open>rd\<close> with the text of the exception it raises.
\<close>

partial_function (option) mcp_call_tool ::
  "('i \<Rightarrow> 'a \<Rightarrow> error + 'r) \<Rightarrow> 'i world \<Rightarrow> ref \<Rightarrow> string \<Rightarrow> 'a \<Rightarrow> (error + 'r) option" where
  "mcp_call_tool run st self key arguments =
     (case servers st self of
        None \<Rightarrow> None
      | Some srv \<Rightarrow>
          if has_tool (p_tool_manager srv) key
          then Some (call_tool run (p_tool_manager srv) key arguments)
          else (case first_match match_tool (map snd (p_mounted_servers srv)) key of
                  Some m \<Rightarrow> mcp_call_tool run st (server m) (strip_tool_prefix m key) arguments
                | None \<Rightarrow> Some (Inl (NotFoundError (''Unknown tool: '' @ key)))))"

partial_function (option) mcp_read_resource ::
  "('i \<Rightarrow> string + 'c) \<Rightarrow> ('i \<Rightarrow> string) \<Rightarrow> 'i world \<Rightarrow> ref \<Rightarrow> string
     \<Rightarrow> (error + ('c \<times> string) list) option" where
  "mcp_read_resource rd mime_type st self uri =
     (case servers st self of
        None \<Rightarrow> None
      | Some srv \<Rightarrow>
          if has_resource (p_resource_manager srv) uri
          then (case get_resource (p_resource_manager srv) uri of
                  Inl e \<Rightarrow> Some (Inl e)
                | Inr resource \<Rightarrow>
                    (case rd resource of
                       Inr content \<Rightarrow> Some (Inr [(content, mime_type resource)])
                     | Inl e \<Rightarrow> Some (Inl (ResourceError e))))
          else (case first_match match_resource (map snd (p_mounted_servers srv)) uri of
                  Some m \<Rightarrow> mcp_read_resource rd mime_type st (server m) (strip_resource_prefix m uri)
                | None \<Rightarrow> Some (Inl (NotFoundError (''Unknown resource: '' @ uri)))))"

partial_function (option) mcp_get_prompt ::
  "('i \<Rightarrow> 'a \<Rightarrow> error + 'm) \<Rightarrow> ('m \<Rightarrow> 'j) \<Rightarrow> 'i world \<Rightarrow> ref \<Rightarrow> string \<Rightarrow> 'a
     \<Rightarrow> (error + 'j) option" where
  "mcp_get_prompt render to_jsonable_python st self name arguments =
     (case servers st self of
        None \<Rightarrow> None
      | Some srv \<Rightarrow>
          if has_prompt (p_prompt_manager srv) name
          then (case render_prompt render (p_prompt_manager srv) name arguments of
                  Inl e \<Rightarrow> Some (Inl e)
                | Inr messages \<Rightarrow> Some (Inr (to_jsonable_python messages)))
          else (case first_match match_prompt (map snd (p_mounted_servers srv)) name of
                  Some m \<Rightarrow>
                    mcp_get_prompt render to_jsonable_python st (server m) (strip_prompt_prefix m name)
                      arguments
                | None \<Rightarrow> Some (Inl (NotFoundError (''Unknown prompt: '' @ name)))))"

subsection \<open>Mutation and composition\<close>





text \<open>\<open>d.pop(k)\<close> with no default: the dict without the key, or \<open>KeyError\<close>.\<close>

definition dict_pop :: "(string, 'v) dict \<Rightarrow> string \<Rightarrow> error + (string, 'v) dict" where
  "dict_pop d k =
     (if dict_contains d k then Inr (filter (\<lambda>(k', v). k' \<noteq> k) d) else Inl (KeyError k))"

definition unmount :: "'i FastMCP \<Rightarrow> string \<Rightarrow> error + 'i FastMCP" where
  "unmount self pfx =
     (case dict_pop (p_mounted_servers self) pfx of
        Inl e \<Rightarrow> Inl e
      | Inr d \<Rightarrow> Inr (self\<lparr> p_mounted_servers := d, p_cache := TimedCache_clear (p_cache self) \<rparr>))"





section \<open>A store of two servers\<close>

text \<open>
  The scenario of the specification: a server with a local tool \<open>add\<close> mounts, under
  the prefix \<open>calc\<close> and with the default separators, a server that has a tool
  \<open>add\<close> of its own. Items are named by strings. The servers have a resource and a
  prompt each as well; the resource \<open>R.broken\<close> is one whose read raises.
\<close>

definition example_M :: "string FastMCP" where
  "example_M =
     \<lparr> p_cache = TimedCache_init 60,
       p_mounted_servers = [],
       p_tool_manager = \<lparr> tools = [(''add'', ''M.add'')], tool_duplicate_behavior = Dup_error \<rparr>,
       p_resource_manager =
         \<lparr> resources = [(''weather://forecast'', ''M.forecast'')], templates = [],
           resource_duplicate_behavior = Dup_error \<rparr>,
       p_prompt_manager = \<lparr> prompts = [(''greet'', ''M.greet'')], prompt_duplicate_behavior = Dup_error \<rparr> \<rparr>"

definition example_R :: "string FastMCP" where
  "example_R =
     \<lparr> p_cache = TimedCache_init 60,
       p_mounted_servers = [(''calc'', MountedServer_init ''calc'' 1 None None None)],
       p_tool_manager = \<lparr> tools = [(''add'', ''R.add'')], tool_duplicate_behavior = Dup_error \<rparr>,
       p_resource_manager =
         \<lparr> resources = [(''file://broken'', ''R.broken'')], templates = [],
           resource_duplicate_behavior = Dup_error \<rparr>,
       p_prompt_manager = \<lparr> prompts = [(''greet'', ''R.greet'')], prompt_duplicate_behavior = Dup_error \<rparr> \<rparr>"

definition example_world :: "string world" where
  "example_world = \<lparr> servers = [0 \<mapsto> example_R, 1 \<mapsto> example_M], reads = 0 \<rparr>"

definition example_run :: "string \<Rightarrow> nat \<Rightarrow> error + (string \<times> nat)" where
  "example_run tool arguments = Inr (tool, arguments)"

definition example_read :: "string \<Rightarrow> string + string" where
  "example_read resource =
     (if resource = ''R.broken'' then Inl ''disk failure'' else Inr (''content of '' @ resource))"

definition example_mime_type :: "string \<Rightarrow> string" where
  "example_mime_type resource = ''text/plain''"

definition example_render :: "string \<Rightarrow> nat \<Rightarrow> error + string" where
  "example_render prompt arguments = Inr (''messages of '' @ prompt)"

section \<open>Notions for stating the properties of listings\<close>

text \<open>
  What a server is apart from the contents of its cache: the leaf registries, the mounts
  and the configured expiration. Listing changes the store in the contents of caches
  only.
\<close>

definition forget_cache :: "'i FastMCP \<Rightarrow> 'i FastMCP" where
  "forget_cache srv = srv\<lparr> p_cache := (p_cache srv)\<lparr> cache := [] \<rparr> \<rparr>"

definition registries :: "'i world \<Rightarrow> ref \<Rightarrow> 'i FastMCP option" where
  "registries st r = map_option forget_cache (servers st r)"




section \<open>A local key that collides with a mounted one\<close>





section \<open>A mutation of a mounted server\<close>



section \<open>Reachability through mounts\<close>


text \<open>
  Every listing of a category that the cache of a server holds has a given key.
\<close>

definition cached_listing_has :: "category \<Rightarrow> ref \<Rightarrow> string \<Rightarrow> 'i world \<Rightarrow> bool" where
  "cached_listing_has cat tgt key s \<longleftrightarrow>
     (\<forall>srv items e. servers s tgt = Some srv \<longrightarrow>
        dict_get (cache (p_cache srv)) (cache_key cat) = Some (items, e) \<longrightarrow>
        dict_contains items key)"

section \<open>An import and a mount of the same server\<close>






section \<open>Facts about strings and dictionaries\<close>

lemma startswith_append: "startswith (p @ k) p"
  by (induction p) simp_all

lemma startswith_iff: "startswith s p \<longleftrightarrow> (\<exists>k. s = p @ k)"
proof (induction s p rule: startswith.induct)
  case (1 s)
  show ?case by simp
next
  case (2 p ps)
  show ?case by simp
next
  case (3 c s p ps)
  then show ?case by auto
qed

lemma removeprefix_append: "removeprefix (p @ k) p = k"
  by (simp add: removeprefix_def startswith_append)

lemma removeprefix_no_match: "\<not> startswith s p \<Longrightarrow> removeprefix s p = s"
  by (simp add: removeprefix_def)

lemma map_of_dict_set: "map_of (dict_set d k v) = (map_of d)(k \<mapsto> v)"
  by (induction d) (auto simp: fun_eq_iff)

lemma dict_get_dict_set: "dict_get (dict_set d k v) k' = (if k' = k then Some v else dict_get d k')"
  by (simp add: dict_get_def map_of_dict_set)

lemma keys_dict_set: "fst ` set (dict_set d k v) = insert k (fst ` set d)"
proof -
  have "dom (map_of (dict_set d k v)) = insert k (dom (map_of d))"
    by (simp add: map_of_dict_set)
  then show ?thesis by (simp add: dom_map_of_conv_image_fst)
qed

lemma distinct_dict_set: "distinct (map fst d) \<Longrightarrow> distinct (map fst (dict_set d k v))"
proof (induction d)
  case Nil
  show ?case by simp
next
  case (Cons kv d)
  obtain k' v' where kv: "kv = (k', v')" by (cases kv)
  from Cons show ?case
    unfolding kv by (auto simp: keys_dict_set)
qed


section \<open>Prefix matching and stripping\<close>

text \<open>
  Claim C5. For a mounted server with prefix \<open>p\<close> and a separator \<open>s\<close>, stripping
  \<open>p + s + k\<close> gives \<open>k\<close> back, \<open>p + s + k\<close> matches, and a key that is not of
  the form \<open>p + s + k'\<close> does not match; so for the tool, the resource and the prompt
  pair of methods.
\<close>

theorem prefix_round_trip:
  "strip_tool_prefix m (prefix m @ tool_separator m @ k) = k
   \<and> match_tool m (prefix m @ tool_separator m @ k)
   \<and> (\<not> (\<exists>k'. key = prefix m @ tool_separator m @ k') \<longrightarrow> \<not> match_tool m key)
   \<and> strip_resource_prefix m (prefix m @ resource_separator m @ k) = k
   \<and> match_resource m (prefix m @ resource_separator m @ k)
   \<and> (\<not> (\<exists>k'. key = prefix m @ resource_separator m @ k') \<longrightarrow> \<not> match_resource m key)
   \<and> strip_prompt_prefix m (prefix m @ prompt_separator m @ k) = k
   \<and> match_prompt m (prefix m @ prompt_separator m @ k)
   \<and> (\<not> (\<exists>k'. key = prefix m @ prompt_separator m @ k') \<longrightarrow> \<not> match_prompt m key)"
proof -
  have strip: "\<And>p s. removeprefix (p @ s @ k) (p @ s) = k"
    using removeprefix_append [of "p @ s" k for p s] by simp
  have match: "\<And>p s. startswith (p @ s @ k) (p @ s)"
    using startswith_append [of "p @ s" k for p s] by simp
  have no_match: "\<And>p s. \<not> (\<exists>k'. key = p @ s @ k') \<Longrightarrow> \<not> startswith key (p @ s)"
    by (simp add: startswith_iff)
  show ?thesis
    using no_match
    by (simp add: strip match strip_tool_prefix_def match_tool_def strip_resource_prefix_def
        match_resource_def strip_prompt_prefix_def match_prompt_def)
qed

theorem prefix_round_trip_witness:
  "strip_tool_prefix (MountedServer_init ''calc'' 1 None None None) ''calc_add'' = ''add''
   \<and> match_tool (MountedServer_init ''calc'' 1 None None None) ''calc_add''
   \<and> \<not> match_tool (MountedServer_init ''calc'' 1 None None None) ''add''
   \<and> strip_resource_prefix (MountedServer_init ''calc'' 1 None None None) ''calc+add'' = ''add''
   \<and> \<not> match_resource (MountedServer_init ''calc'' 1 None None None) ''add''
   \<and> strip_prompt_prefix (MountedServer_init ''calc'' 1 None None None) ''calc_add'' = ''add''
   \<and> \<not> match_prompt (MountedServer_init ''calc'' 1 None None None) ''add''"
  using prefix_round_trip [of "MountedServer_init ''calc'' 1 None None None" "''add''" "''add''"]
  by (simp add: MountedServer_init_def)

text \<open>
  Claim C10. On a key that the match method rejects, the strip method of the same kind
  returns the key as it is: \<open>str.removeprefix\<close> has no failing case.
\<close>

theorem strip_unchanged_without_match:
  "(\<not> match_tool m key \<longrightarrow> strip_tool_prefix m key = key)
   \<and> (\<not> match_resource m key \<longrightarrow> strip_resource_prefix m key = key)
   \<and> (\<not> match_prompt m key \<longrightarrow> strip_prompt_prefix m key = key)"
  by (simp add: removeprefix_no_match strip_tool_prefix_def match_tool_def
      strip_resource_prefix_def match_resource_def strip_prompt_prefix_def match_prompt_def)

theorem strip_unchanged_without_match_witness:
  "\<not> match_tool (MountedServer_init ''calc'' 1 None None None) ''add''
   \<and> strip_tool_prefix (MountedServer_init ''calc'' 1 None None None) ''add'' = ''add''
   \<and> \<not> match_resource (MountedServer_init ''calc'' 1 None None None) ''calc_add''
   \<and> strip_resource_prefix (MountedServer_init ''calc'' 1 None None None) ''calc_add'' = ''calc_add''
   \<and> \<not> match_prompt (MountedServer_init ''calc'' 1 None None None) ''cal''
   \<and> strip_prompt_prefix (MountedServer_init ''calc'' 1 None None None) ''cal'' = ''cal''"
proof -
  let ?m = "MountedServer_init ''calc'' 1 None None None"
  have t: "\<not> match_tool ?m ''add''"
    by (simp add: MountedServer_init_def match_tool_def)
  have r: "\<not> match_resource ?m ''calc_add''"
    by (simp add: MountedServer_init_def match_resource_def)
  have p: "\<not> match_prompt ?m ''cal''"
    by (simp add: MountedServer_init_def match_prompt_def)
  show ?thesis
    using t r p strip_unchanged_without_match [of ?m "''add''"]
      strip_unchanged_without_match [of ?m "''calc_add''"]
      strip_unchanged_without_match [of ?m "''cal''"]
    by simp
qed

section \<open>The expiring cache\<close>

text \<open>
  Claim C7. \<open>set(key, v)\<close> at the time \<open>t_set\<close> stores the entry when the
  expiry \<open>t_set + expiration\<close> is a \<open>datetime\<close>, and raises
  \<open>OverflowError\<close> otherwise. After it has stored the entry, a \<open>get(key)\<close> at
  the time \<open>t_get\<close> returns \<open>v\<close> when less than the expiration has passed, and
  \<open>NOT_FOUND\<close> otherwise, although the entry is still in the dict; the write
  changes nothing for another key; two reads before the expiry return the same value; a
  cached \<open>None\<close> is returned as such and differs from \<open>NOT_FOUND\<close>.
\<close>

theorem TimedCache_get_set:
  "(is_datetime (t_set + expiration c) \<longrightarrow>
      (\<exists>c1. TimedCache_set c key v t_set = Inr c1
         \<and> TimedCache_get c1 key t_get
             = (if t_get - t_set < expiration c then Found v else NOT_FOUND)
         \<and> (key' \<noteq> key \<longrightarrow> TimedCache_get c1 key' t_get = TimedCache_get c key' t_get)
         \<and> (t_get - t_set < expiration c \<longrightarrow> t_get' - t_set < expiration c \<longrightarrow>
              TimedCache_get c1 key t_get = TimedCache_get c1 key t_get')
         \<and> (\<not> t_get - t_set < expiration c \<longrightarrow>
              TimedCache_get c1 key t_get = NOT_FOUND \<and> dict_contains (cache c1) key)))
   \<and> (is_datetime (t_set + expiration c') \<longrightarrow> t_get - t_set < expiration c' \<longrightarrow>
      (\<exists>c1. TimedCache_set c' key None t_set = Inr c1
         \<and> TimedCache_get c1 key t_get = Found None
         \<and> Found None \<noteq> (NOT_FOUND :: 'w option lookup)))
   \<and> (\<not> is_datetime (t_set + expiration c) \<longrightarrow>
        TimedCache_set c key v t_set = Inl (OverflowError ''date value out of range''))"
  by (auto simp: TimedCache_get_def TimedCache_set_def datetime_add_def dict_get_dict_set
      dict_contains_def keys_dict_set)

theorem TimedCache_get_set_witness:
  "(\<exists>c1. TimedCache_set (TimedCache_init 10) ''tools'' (None :: nat option) 100 = Inr c1
      \<and> TimedCache_get c1 ''tools'' 105 = Found None
      \<and> TimedCache_get c1 ''tools'' 110 = NOT_FOUND
      \<and> TimedCache_get c1 ''prompts'' 105 = NOT_FOUND)
   \<and> TimedCache_set (TimedCache_init 10) ''tools'' (None :: nat option) datetime_max
       = Inl (OverflowError ''date value out of range'')"
proof -
  let ?c = "TimedCache_init 10 :: (string, nat option) TimedCache"
  have ex: "expiration ?c = 10"
    by (simp add: TimedCache_init_def)
  have e: "TimedCache_get ?c ''prompts'' 105 = NOT_FOUND"
    by (simp add: TimedCache_init_def TimedCache_get_def dict_get_def)
  have d: "is_datetime (100 + 10)" "\<not> is_datetime (datetime_max + 10)"
    by (simp_all add: is_datetime_def datetime_min_def datetime_max_def)
  from TimedCache_get_set [of 100 ?c "''tools''" None 105 "''prompts''" 105 ?c] ex e d
  obtain c1 where c1: "TimedCache_set ?c ''tools'' None 100 = Inr c1"
    and "TimedCache_get c1 ''tools'' 105 = Found None"
    and "TimedCache_get c1 ''prompts'' 105 = NOT_FOUND"
    by auto
  moreover from TimedCache_get_set [of 100 ?c "''tools''" None 110 "''prompts''" 110 ?c] ex d c1
  have "TimedCache_get c1 ''tools'' 110 = NOT_FOUND"
    by auto
  moreover from TimedCache_get_set [of datetime_max ?c "''tools''" None 0 "''prompts''" 0 ?c] ex d
  have "TimedCache_set ?c ''tools'' None datetime_max = Inl (OverflowError ''date value out of range'')"
    by simp
  ultimately show ?thesis
    by blast
qed

section \<open>Dispatch\<close>

lemma first_match_Some:
  "ms = before @ m # after \<Longrightarrow> \<forall>b\<in>set before. \<not> match b key \<Longrightarrow> match m key
     \<Longrightarrow> first_match match ms key = Some m"
  by (induction before arbitrary: ms) auto

lemma first_match_None: "\<forall>m\<in>set ms. \<not> match m key \<Longrightarrow> first_match match ms key = None"
  by (induction ms) auto

lemma first_match_SomeD:
  "first_match match ms key = Some m
     \<Longrightarrow> \<exists>before after. ms = before @ m # after \<and> (\<forall>b\<in>set before. \<not> match b key) \<and> match m key"
proof (induction ms)
  case Nil
  then show ?case by simp
next
  case (Cons a ms)
  show ?case
  proof (cases "match a key")
    case True
    with Cons.prems have "a = m" by simp
    with True have "a # ms = [] @ m # ms \<and> (\<forall>b\<in>set []. \<not> match b key) \<and> match m key"
      by simp
    then show ?thesis by blast
  next
    case False
    with Cons.prems have "first_match match ms key = Some m" by simp
    from Cons.IH [OF this] obtain before after
      where "ms = before @ m # after" "\<forall>b\<in>set before. \<not> match b key" "match m key"
      by blast
    with False have "a # ms = (a # before) @ m # after
        \<and> (\<forall>b\<in>set (a # before). \<not> match b key) \<and> match m key"
      by simp
    then show ?thesis by blast
  qed
qed

lemma dict_contains_iff: "dict_contains d k \<longleftrightarrow> (\<exists>v. dict_get d k = Some v)"
proof -
  have "k \<in> fst ` set d \<longleftrightarrow> k \<in> dom (map_of d)"
    by (simp add: dom_map_of_conv_image_fst)
  then show ?thesis
    by (auto simp: dict_contains_def dict_get_def)
qed

lemma call_tool_local:
  assumes "servers st self = Some srv" and "dict_get (tools (p_tool_manager srv)) key = Some tool"
  shows "mcp_call_tool run st self key arguments = Some (run tool arguments)"
proof -
  from assms(2) have "has_tool (p_tool_manager srv) key"
    by (auto simp: has_tool_def dict_contains_iff)
  with assms show ?thesis
    by (subst mcp_call_tool.simps) (simp add: call_tool_def)
qed

lemma call_tool_mounted:
  assumes "servers st self = Some srv" and "\<not> has_tool (p_tool_manager srv) key"
    and "first_match match_tool (map snd (p_mounted_servers srv)) key = Some m"
  shows "mcp_call_tool run st self key arguments
           = mcp_call_tool run st (server m) (strip_tool_prefix m key) arguments"
  using assms by (subst mcp_call_tool.simps) simp

lemma call_tool_unknown:
  assumes "servers st self = Some srv" and "\<not> has_tool (p_tool_manager srv) key"
    and "first_match match_tool (map snd (p_mounted_servers srv)) key = None"
  shows "mcp_call_tool run st self key arguments = Some (Inl (NotFoundError (''Unknown tool: '' @ key)))"
  using assms by (subst mcp_call_tool.simps) simp

lemma read_resource_local:
  assumes "servers st self = Some srv"
    and "dict_get (resources (p_resource_manager srv)) uri = Some resource"
  shows "mcp_read_resource rd mime_type st self uri
           = Some (case rd resource of
                     Inr content \<Rightarrow> Inr [(content, mime_type resource)]
                   | Inl e \<Rightarrow> Inl (ResourceError e))"
proof -
  from assms(2) have "has_resource (p_resource_manager srv) uri"
    by (auto simp: has_resource_def dict_contains_iff)
  with assms show ?thesis
    by (subst mcp_read_resource.simps) (simp add: get_resource_def split: sum.splits)
qed

lemma read_resource_mounted:
  assumes "servers st self = Some srv" and "\<not> has_resource (p_resource_manager srv) uri"
    and "first_match match_resource (map snd (p_mounted_servers srv)) uri = Some m"
  shows "mcp_read_resource rd mime_type st self uri
           = mcp_read_resource rd mime_type st (server m) (strip_resource_prefix m uri)"
  using assms by (subst mcp_read_resource.simps) simp

lemma read_resource_unknown:
  assumes "servers st self = Some srv" and "\<not> has_resource (p_resource_manager srv) uri"
    and "first_match match_resource (map snd (p_mounted_servers srv)) uri = None"
  shows "mcp_read_resource rd mime_type st self uri
           = Some (Inl (NotFoundError (''Unknown resource: '' @ uri)))"
  using assms by (subst mcp_read_resource.simps) simp

lemma get_prompt_local:
  assumes "servers st self = Some srv" and "dict_get (prompts (p_prompt_manager srv)) name = Some prompt"
  shows "mcp_get_prompt render to_jsonable_python st self name arguments
           = Some (case render prompt arguments of
                     Inl e \<Rightarrow> Inl e
                   | Inr messages \<Rightarrow> Inr (to_jsonable_python messages))"
proof -
  from assms(2) have "has_prompt (p_prompt_manager srv) name"
    by (auto simp: has_prompt_def dict_contains_iff)
  with assms show ?thesis
    by (subst mcp_get_prompt.simps) (simp add: render_prompt_def split: sum.splits)
qed

lemma get_prompt_mounted:
  assumes "servers st self = Some srv" and "\<not> has_prompt (p_prompt_manager srv) name"
    and "first_match match_prompt (map snd (p_mounted_servers srv)) name = Some m"
  shows "mcp_get_prompt render to_jsonable_python st self name arguments
           = mcp_get_prompt render to_jsonable_python st (server m) (strip_prompt_prefix m name) arguments"
  using assms by (subst mcp_get_prompt.simps) simp

lemma get_prompt_unknown:
  assumes "servers st self = Some srv" and "\<not> has_prompt (p_prompt_manager srv) name"
    and "first_match match_prompt (map snd (p_mounted_servers srv)) name = None"
  shows "mcp_get_prompt render to_jsonable_python st self name arguments
           = Some (Inl (NotFoundError (''Unknown prompt: '' @ name)))"
  using assms by (subst mcp_get_prompt.simps) simp

text \<open>
  Claim C1. Each of the three dispatchers runs the local item when the local registry has
  the key. When it has not, and \<open>m\<close> is the first mounted server, in the order of the
  dict of mounts, whose match method accepts the key, the call is the call of the same
  dispatcher on the target server of \<open>m\<close> with the stripped key.
\<close>

theorem dispatch_local_first_then_mounts:
  assumes "servers st self = Some srv"
  shows
    "(has_tool (p_tool_manager srv) key \<longrightarrow>
        (\<exists>tool. dict_get (tools (p_tool_manager srv)) key = Some tool
           \<and> mcp_call_tool run st self key arguments = Some (run tool arguments)))
     \<and> (\<not> has_tool (p_tool_manager srv) key
          \<and> map snd (p_mounted_servers srv) = before @ m # after
          \<and> (\<forall>b\<in>set before. \<not> match_tool b key) \<and> match_tool m key \<longrightarrow>
        mcp_call_tool run st self key arguments
          = mcp_call_tool run st (server m) (strip_tool_prefix m key) arguments)
     \<and> (has_resource (p_resource_manager srv) uri \<longrightarrow>
        (\<exists>resource. dict_get (resources (p_resource_manager srv)) uri = Some resource
           \<and> mcp_read_resource rd mime_type st self uri
               = Some (case rd resource of
                         Inr content \<Rightarrow> Inr [(content, mime_type resource)]
                       | Inl e \<Rightarrow> Inl (ResourceError e))))
     \<and> (\<not> has_resource (p_resource_manager srv) uri
          \<and> map snd (p_mounted_servers srv) = before @ m # after
          \<and> (\<forall>b\<in>set before. \<not> match_resource b uri) \<and> match_resource m uri \<longrightarrow>
        mcp_read_resource rd mime_type st self uri
          = mcp_read_resource rd mime_type st (server m) (strip_resource_prefix m uri))
     \<and> (has_prompt (p_prompt_manager srv) name \<longrightarrow>
        (\<exists>prompt. dict_get (prompts (p_prompt_manager srv)) name = Some prompt
           \<and> mcp_get_prompt render to_jsonable_python st self name prompt_arguments
               = Some (case render prompt prompt_arguments of
                         Inl e \<Rightarrow> Inl e
                       | Inr messages \<Rightarrow> Inr (to_jsonable_python messages))))
     \<and> (\<not> has_prompt (p_prompt_manager srv) name
          \<and> map snd (p_mounted_servers srv) = before @ m # after
          \<and> (\<forall>b\<in>set before. \<not> match_prompt b name) \<and> match_prompt m name \<longrightarrow>
        mcp_get_prompt render to_jsonable_python st self name prompt_arguments
          = mcp_get_prompt render to_jsonable_python st (server m) (strip_prompt_prefix m name)
              prompt_arguments)"
proof (intro conjI impI)
  assume "has_tool (p_tool_manager srv) key"
  then obtain tool where t: "dict_get (tools (p_tool_manager srv)) key = Some tool"
    by (auto simp: has_tool_def dict_contains_iff)
  with call_tool_local [OF assms t, of run arguments] show "\<exists>tool. dict_get (tools (p_tool_manager srv)) key = Some tool
      \<and> mcp_call_tool run st self key arguments = Some (run tool arguments)"
    by blast
next
  assume h: "\<not> has_tool (p_tool_manager srv) key
      \<and> map snd (p_mounted_servers srv) = before @ m # after
      \<and> (\<forall>b\<in>set before. \<not> match_tool b key) \<and> match_tool m key"
  then have fm: "first_match match_tool (map snd (p_mounted_servers srv)) key = Some m"
    using first_match_Some by blast
  from h have nh: "\<not> has_tool (p_tool_manager srv) key"
    by simp
  show "mcp_call_tool run st self key arguments
      = mcp_call_tool run st (server m) (strip_tool_prefix m key) arguments"
    by (rule call_tool_mounted [OF assms nh fm])
next
  assume "has_resource (p_resource_manager srv) uri"
  then obtain resource where r: "dict_get (resources (p_resource_manager srv)) uri = Some resource"
    by (auto simp: has_resource_def dict_contains_iff)
  with read_resource_local [OF assms r, of rd mime_type]
  show "\<exists>resource. dict_get (resources (p_resource_manager srv)) uri = Some resource
      \<and> mcp_read_resource rd mime_type st self uri
          = Some (case rd resource of
                    Inr content \<Rightarrow> Inr [(content, mime_type resource)]
                  | Inl e \<Rightarrow> Inl (ResourceError e))"
    by blast
next
  assume h: "\<not> has_resource (p_resource_manager srv) uri
      \<and> map snd (p_mounted_servers srv) = before @ m # after
      \<and> (\<forall>b\<in>set before. \<not> match_resource b uri) \<and> match_resource m uri"
  then have fm: "first_match match_resource (map snd (p_mounted_servers srv)) uri = Some m"
    using first_match_Some by blast
  from h have nh: "\<not> has_resource (p_resource_manager srv) uri"
    by simp
  show "mcp_read_resource rd mime_type st self uri
      = mcp_read_resource rd mime_type st (server m) (strip_resource_prefix m uri)"
    by (rule read_resource_mounted [OF assms nh fm])
next
  assume "has_prompt (p_prompt_manager srv) name"
  then obtain prompt where p: "dict_get (prompts (p_prompt_manager srv)) name = Some prompt"
    by (auto simp: has_prompt_def dict_contains_iff)
  with get_prompt_local [OF assms p, of render to_jsonable_python prompt_arguments]
  show "\<exists>prompt. dict_get (prompts (p_prompt_manager srv)) name = Some prompt
      \<and> mcp_get_prompt render to_jsonable_python st self name prompt_arguments
          = Some (case render prompt prompt_arguments of
                    Inl e \<Rightarrow> Inl e
                  | Inr messages \<Rightarrow> Inr (to_jsonable_python messages))"
    by blast
next
  assume h: "\<not> has_prompt (p_prompt_manager srv) name
      \<and> map snd (p_mounted_servers srv) = before @ m # after
      \<and> (\<forall>b\<in>set before. \<not> match_prompt b name) \<and> match_prompt m name"
  then have fm: "first_match match_prompt (map snd (p_mounted_servers srv)) name = Some m"
    using first_match_Some by blast
  from h have nh: "\<not> has_prompt (p_prompt_manager srv) name"
    by simp
  show "mcp_get_prompt render to_jsonable_python st self name prompt_arguments
      = mcp_get_prompt render to_jsonable_python st (server m) (strip_prompt_prefix m name)
          prompt_arguments"
    by (rule get_prompt_mounted [OF assms nh fm])
qed

lemma example_world_0: "servers example_world 0 = Some example_R"
  by (simp add: example_world_def)

lemma example_world_1: "servers example_world 1 = Some example_M"
  by (simp add: example_world_def)

lemma example_R_mounts:
  "map snd (p_mounted_servers example_R) = [] @ MountedServer_init ''calc'' 1 None None None # []"
  by (simp add: example_R_def)

lemma example_calc_server: "server (MountedServer_init ''calc'' 1 None None None) = 1"
  by (simp add: MountedServer_init_def)

theorem dispatch_local_first_then_mounts_witness:
  "mcp_call_tool example_run example_world 0 ''add'' 7 = Some (Inr (''R.add'', 7))
   \<and> mcp_call_tool example_run example_world 0 ''calc_add'' 7 = Some (Inr (''M.add'', 7))
   \<and> mcp_read_resource example_read example_mime_type example_world 0 ''calc+weather://forecast''
       = Some (Inr [(''content of M.forecast'', ''text/plain'')])
   \<and> mcp_get_prompt example_render length example_world 0 ''calc_greet'' 7 = Some (Inr 19)"
proof -
  let ?m = "MountedServer_init ''calc'' 1 None None None"
  have local_R: "has_tool (p_tool_manager example_R) ''add''"
    by (simp add: example_R_def has_tool_def dict_contains_def)
  have not_R: "\<not> has_tool (p_tool_manager example_R) ''calc_add''"
    "\<not> has_resource (p_resource_manager example_R) ''calc+weather://forecast''"
    "\<not> has_prompt (p_prompt_manager example_R) ''calc_greet''"
    by (simp_all add: example_R_def has_tool_def has_resource_def has_prompt_def dict_contains_def)
  have matches: "match_tool ?m ''calc_add''" "match_resource ?m ''calc+weather://forecast''"
    "match_prompt ?m ''calc_greet''"
    by (simp_all add: MountedServer_init_def match_tool_def match_resource_def match_prompt_def)
  have strips: "strip_tool_prefix ?m ''calc_add'' = ''add''"
    "strip_resource_prefix ?m ''calc+weather://forecast'' = ''weather://forecast''"
    "strip_prompt_prefix ?m ''calc_greet'' = ''greet''"
    by (simp_all add: MountedServer_init_def strip_tool_prefix_def strip_resource_prefix_def
        strip_prompt_prefix_def removeprefix_def)
  have local_M: "has_tool (p_tool_manager example_M) ''add''"
    "has_resource (p_resource_manager example_M) ''weather://forecast''"
    "has_prompt (p_prompt_manager example_M) ''greet''"
    by (simp_all add: example_M_def has_tool_def has_resource_def has_prompt_def dict_contains_def)
  have items: "dict_get (tools (p_tool_manager example_R)) ''add'' = Some ''R.add''"
    "dict_get (tools (p_tool_manager example_M)) ''add'' = Some ''M.add''"
    "dict_get (resources (p_resource_manager example_M)) ''weather://forecast'' = Some ''M.forecast''"
    "dict_get (prompts (p_prompt_manager example_M)) ''greet'' = Some ''M.greet''"
    by (simp_all add: example_R_def example_M_def dict_get_def)
  note at_R = dispatch_local_first_then_mounts [OF example_world_0, where before = "[]" and m = ?m
      and after = "[]" and run = example_run and rd = example_read and mime_type = example_mime_type
      and render = example_render and to_jsonable_python = length and arguments = 7
      and prompt_arguments = 7]
  note at_M = dispatch_local_first_then_mounts [OF example_world_1, where key = "''add''"
      and uri = "''weather://forecast''" and name = "''greet''"
      and run = example_run and rd = example_read and mime_type = example_mime_type
      and render = example_render and to_jsonable_python = length and arguments = 7
      and prompt_arguments = 7]
  have 1: "mcp_call_tool example_run example_world 0 ''add'' 7 = Some (Inr (''R.add'', 7))"
    using at_R [where key = "''add''"] local_R items by (simp add: example_run_def)
  have 2: "mcp_call_tool example_run example_world 0 ''calc_add'' 7 = Some (Inr (''M.add'', 7))"
    using at_R [where key = "''calc_add''"] at_M not_R matches strips local_M items
      example_R_mounts example_calc_server
    by (simp add: example_run_def)
  have 3: "mcp_read_resource example_read example_mime_type example_world 0 ''calc+weather://forecast''
      = Some (Inr [(''content of M.forecast'', ''text/plain'')])"
    using at_R [where uri = "''calc+weather://forecast''"] at_M not_R matches strips local_M items
      example_R_mounts example_calc_server
    by (simp add: example_read_def example_mime_type_def)
  have 4: "mcp_get_prompt example_render length example_world 0 ''calc_greet'' 7 = Some (Inr 19)"
    using at_R [where name = "''calc_greet''"] at_M not_R matches strips local_M items
      example_R_mounts example_calc_server
    by (simp add: example_render_def)
  from 1 2 3 4 show ?thesis by simp
qed

text \<open>
  Claim C6, as stated, fails: the server of the scenario has no tool \<open>calc_sub\<close>, its
  mount \<open>calc\<close> matches, the mounted server has no tool \<open>sub\<close>, and the error that
  reaches the caller names \<open>sub\<close>, not \<open>calc_sub\<close>.
\<close>

theorem not_found_original_key_counterexample:
  "\<not> has_tool (p_tool_manager example_R) ''calc_sub''
   \<and> first_match match_tool (map snd (p_mounted_servers example_R)) ''calc_sub''
       = Some (MountedServer_init ''calc'' 1 None None None)
   \<and> mcp_call_tool example_run example_world 0 ''calc_sub'' 7
       = Some (Inl (NotFoundError ''Unknown tool: sub''))
   \<and> mcp_call_tool example_run example_world 0 ''calc_sub'' 7
       \<noteq> Some (Inl (NotFoundError (''Unknown tool: '' @ ''calc_sub'')))"
proof -
  let ?m = "MountedServer_init ''calc'' 1 None None None"
  have nh: "\<not> has_tool (p_tool_manager example_R) ''calc_sub''"
    by (simp add: example_R_def has_tool_def dict_contains_def)
  have fm: "first_match match_tool (map snd (p_mounted_servers example_R)) ''calc_sub'' = Some ?m"
    by (simp add: example_R_def MountedServer_init_def match_tool_def)
  have strip: "strip_tool_prefix ?m ''calc_sub'' = ''sub''"
    by (simp add: MountedServer_init_def strip_tool_prefix_def removeprefix_def)
  have nh_M: "\<not> has_tool (p_tool_manager example_M) ''sub''"
    by (simp add: example_M_def has_tool_def dict_contains_def)
  have fm_M: "first_match match_tool (map snd (p_mounted_servers example_M)) ''sub'' = None"
    by (simp add: example_M_def)
  have "mcp_call_tool example_run example_world 0 ''calc_sub'' 7
      = mcp_call_tool example_run example_world 1 ''sub'' 7"
    using call_tool_mounted [OF example_world_0 nh fm, of example_run 7] strip example_calc_server
    by simp
  also have "\<dots> = Some (Inl (NotFoundError ''Unknown tool: sub''))"
    using call_tool_unknown [OF example_world_1 nh_M fm_M, of example_run 7] by simp
  finally have r: "mcp_call_tool example_run example_world 0 ''calc_sub'' 7
      = Some (Inl (NotFoundError ''Unknown tool: sub''))" .
  from nh fm r show ?thesis by simp
qed

text \<open>
  Claim C6, amended. A dispatcher whose server has neither the key nor a mount that
  matches it raises \<open>NotFoundError\<close> with the key as that server received it. When a
  mount matches and the target server has neither the stripped key nor a matching mount,
  the error that reaches the caller is the target's: it names the stripped key.
\<close>

theorem not_found_names_key_of_failing_server:
  assumes "servers st self = Some srv"
  shows
    "(\<not> has_tool (p_tool_manager srv) key
        \<and> (\<forall>m\<in>set (map snd (p_mounted_servers srv)). \<not> match_tool m key) \<longrightarrow>
      mcp_call_tool run st self key arguments = Some (Inl (NotFoundError (''Unknown tool: '' @ key))))
     \<and> (\<not> has_tool (p_tool_manager srv) key
        \<and> first_match match_tool (map snd (p_mounted_servers srv)) key = Some m
        \<and> servers st (server m) = Some target
        \<and> \<not> has_tool (p_tool_manager target) (strip_tool_prefix m key)
        \<and> (\<forall>m'\<in>set (map snd (p_mounted_servers target)). \<not> match_tool m' (strip_tool_prefix m key)) \<longrightarrow>
      mcp_call_tool run st self key arguments
        = Some (Inl (NotFoundError (''Unknown tool: '' @ strip_tool_prefix m key))))
     \<and> (\<not> has_resource (p_resource_manager srv) uri
        \<and> (\<forall>m\<in>set (map snd (p_mounted_servers srv)). \<not> match_resource m uri) \<longrightarrow>
      mcp_read_resource rd mime_type st self uri
        = Some (Inl (NotFoundError (''Unknown resource: '' @ uri))))
     \<and> (\<not> has_resource (p_resource_manager srv) uri
        \<and> first_match match_resource (map snd (p_mounted_servers srv)) uri = Some m
        \<and> servers st (server m) = Some target
        \<and> \<not> has_resource (p_resource_manager target) (strip_resource_prefix m uri)
        \<and> (\<forall>m'\<in>set (map snd (p_mounted_servers target)).
              \<not> match_resource m' (strip_resource_prefix m uri)) \<longrightarrow>
      mcp_read_resource rd mime_type st self uri
        = Some (Inl (NotFoundError (''Unknown resource: '' @ strip_resource_prefix m uri))))
     \<and> (\<not> has_prompt (p_prompt_manager srv) name
        \<and> (\<forall>m\<in>set (map snd (p_mounted_servers srv)). \<not> match_prompt m name) \<longrightarrow>
      mcp_get_prompt render to_jsonable_python st self name prompt_arguments
        = Some (Inl (NotFoundError (''Unknown prompt: '' @ name))))
     \<and> (\<not> has_prompt (p_prompt_manager srv) name
        \<and> first_match match_prompt (map snd (p_mounted_servers srv)) name = Some m
        \<and> servers st (server m) = Some target
        \<and> \<not> has_prompt (p_prompt_manager target) (strip_prompt_prefix m name)
        \<and> (\<forall>m'\<in>set (map snd (p_mounted_servers target)).
              \<not> match_prompt m' (strip_prompt_prefix m name)) \<longrightarrow>
      mcp_get_prompt render to_jsonable_python st self name prompt_arguments
        = Some (Inl (NotFoundError (''Unknown prompt: '' @ strip_prompt_prefix m name))))"
proof (intro conjI impI)
  assume h: "\<not> has_tool (p_tool_manager srv) key
      \<and> (\<forall>m\<in>set (map snd (p_mounted_servers srv)). \<not> match_tool m key)"
  then have "first_match match_tool (map snd (p_mounted_servers srv)) key = None"
    by (simp add: first_match_None)
  with h show "mcp_call_tool run st self key arguments
      = Some (Inl (NotFoundError (''Unknown tool: '' @ key)))"
    by (simp add: call_tool_unknown [OF assms])
next
  assume h: "\<not> has_tool (p_tool_manager srv) key
      \<and> first_match match_tool (map snd (p_mounted_servers srv)) key = Some m
      \<and> servers st (server m) = Some target
      \<and> \<not> has_tool (p_tool_manager target) (strip_tool_prefix m key)
      \<and> (\<forall>m'\<in>set (map snd (p_mounted_servers target)). \<not> match_tool m' (strip_tool_prefix m key))"
  then have none: "first_match match_tool (map snd (p_mounted_servers target)) (strip_tool_prefix m key)
      = None"
    by (simp add: first_match_None)
  from h have "mcp_call_tool run st self key arguments
      = mcp_call_tool run st (server m) (strip_tool_prefix m key) arguments"
    by (intro call_tool_mounted [OF assms]) simp_all
  also from h none have "\<dots> = Some (Inl (NotFoundError (''Unknown tool: '' @ strip_tool_prefix m key)))"
    by (intro call_tool_unknown) simp_all
  finally show "mcp_call_tool run st self key arguments
      = Some (Inl (NotFoundError (''Unknown tool: '' @ strip_tool_prefix m key)))" .
next
  assume h: "\<not> has_resource (p_resource_manager srv) uri
      \<and> (\<forall>m\<in>set (map snd (p_mounted_servers srv)). \<not> match_resource m uri)"
  then have "first_match match_resource (map snd (p_mounted_servers srv)) uri = None"
    by (simp add: first_match_None)
  with h show "mcp_read_resource rd mime_type st self uri
      = Some (Inl (NotFoundError (''Unknown resource: '' @ uri)))"
    by (simp add: read_resource_unknown [OF assms])
next
  assume h: "\<not> has_resource (p_resource_manager srv) uri
      \<and> first_match match_resource (map snd (p_mounted_servers srv)) uri = Some m
      \<and> servers st (server m) = Some target
      \<and> \<not> has_resource (p_resource_manager target) (strip_resource_prefix m uri)
      \<and> (\<forall>m'\<in>set (map snd (p_mounted_servers target)).
            \<not> match_resource m' (strip_resource_prefix m uri))"
  then have none: "first_match match_resource (map snd (p_mounted_servers target))
      (strip_resource_prefix m uri) = None"
    by (simp add: first_match_None)
  from h have "mcp_read_resource rd mime_type st self uri
      = mcp_read_resource rd mime_type st (server m) (strip_resource_prefix m uri)"
    by (intro read_resource_mounted [OF assms]) simp_all
  also from h none
  have "\<dots> = Some (Inl (NotFoundError (''Unknown resource: '' @ strip_resource_prefix m uri)))"
    by (intro read_resource_unknown) simp_all
  finally show "mcp_read_resource rd mime_type st self uri
      = Some (Inl (NotFoundError (''Unknown resource: '' @ strip_resource_prefix m uri)))" .
next
  assume h: "\<not> has_prompt (p_prompt_manager srv) name
      \<and> (\<forall>m\<in>set (map snd (p_mounted_servers srv)). \<not> match_prompt m name)"
  then have "first_match match_prompt (map snd (p_mounted_servers srv)) name = None"
    by (simp add: first_match_None)
  with h show "mcp_get_prompt render to_jsonable_python st self name prompt_arguments
      = Some (Inl (NotFoundError (''Unknown prompt: '' @ name)))"
    by (simp add: get_prompt_unknown [OF assms])
next
  assume h: "\<not> has_prompt (p_prompt_manager srv) name
      \<and> first_match match_prompt (map snd (p_mounted_servers srv)) name = Some m
      \<and> servers st (server m) = Some target
      \<and> \<not> has_prompt (p_prompt_manager target) (strip_prompt_prefix m name)
      \<and> (\<forall>m'\<in>set (map snd (p_mounted_servers target)).
            \<not> match_prompt m' (strip_prompt_prefix m name))"
  then have none: "first_match match_prompt (map snd (p_mounted_servers target))
      (strip_prompt_prefix m name) = None"
    by (simp add: first_match_None)
  from h have "mcp_get_prompt render to_jsonable_python st self name prompt_arguments
      = mcp_get_prompt render to_jsonable_python st (server m) (strip_prompt_prefix m name)
          prompt_arguments"
    by (intro get_prompt_mounted [OF assms]) simp_all
  also from h none
  have "\<dots> = Some (Inl (NotFoundError (''Unknown prompt: '' @ strip_prompt_prefix m name)))"
    by (intro get_prompt_unknown) simp_all
  finally show "mcp_get_prompt render to_jsonable_python st self name prompt_arguments
      = Some (Inl (NotFoundError (''Unknown prompt: '' @ strip_prompt_prefix m name)))" .
qed

theorem not_found_names_key_of_failing_server_witness:
  "mcp_call_tool example_run example_world 0 ''mul'' 7 = Some (Inl (NotFoundError ''Unknown tool: mul''))
   \<and> mcp_call_tool example_run example_world 0 ''calc_mul'' 7
       = Some (Inl (NotFoundError ''Unknown tool: mul''))
   \<and> mcp_read_resource example_read example_mime_type example_world 0 ''calc+file://x''
       = Some (Inl (NotFoundError ''Unknown resource: file://x''))
   \<and> mcp_read_resource example_read example_mime_type example_world 0 ''file://x''
       = Some (Inl (NotFoundError ''Unknown resource: file://x''))
   \<and> mcp_get_prompt example_render length example_world 0 ''calc_bye'' 7
       = Some (Inl (NotFoundError ''Unknown prompt: bye''))
   \<and> mcp_get_prompt example_render length example_world 0 ''bye'' 7
       = Some (Inl (NotFoundError ''Unknown prompt: bye''))"
proof -
  let ?m = "MountedServer_init ''calc'' 1 None None None"
  have absent_R: "\<not> has_tool (p_tool_manager example_R) ''mul''"
    "\<not> has_tool (p_tool_manager example_R) ''calc_mul''"
    "\<not> has_resource (p_resource_manager example_R) ''file://x''"
    "\<not> has_resource (p_resource_manager example_R) ''calc+file://x''"
    "\<not> has_prompt (p_prompt_manager example_R) ''bye''"
    "\<not> has_prompt (p_prompt_manager example_R) ''calc_bye''"
    by (simp_all add: example_R_def has_tool_def has_resource_def has_prompt_def dict_contains_def)
  have absent_M: "\<not> has_tool (p_tool_manager example_M) ''mul''"
    "\<not> has_resource (p_resource_manager example_M) ''file://x''"
    "\<not> has_prompt (p_prompt_manager example_M) ''bye''"
    by (simp_all add: example_M_def has_tool_def has_resource_def has_prompt_def dict_contains_def)
  have no_match: "\<forall>m\<in>set (map snd (p_mounted_servers example_R)). \<not> match_tool m ''mul''"
    "\<forall>m\<in>set (map snd (p_mounted_servers example_R)). \<not> match_resource m ''file://x''"
    "\<forall>m\<in>set (map snd (p_mounted_servers example_R)). \<not> match_prompt m ''bye''"
    by (simp_all add: example_R_def MountedServer_init_def match_tool_def match_resource_def
        match_prompt_def)
  have matches: "first_match match_tool (map snd (p_mounted_servers example_R)) ''calc_mul'' = Some ?m"
    "first_match match_resource (map snd (p_mounted_servers example_R)) ''calc+file://x'' = Some ?m"
    "first_match match_prompt (map snd (p_mounted_servers example_R)) ''calc_bye'' = Some ?m"
    by (simp_all add: example_R_def MountedServer_init_def match_tool_def match_resource_def
        match_prompt_def)
  have strips: "strip_tool_prefix ?m ''calc_mul'' = ''mul''"
    "strip_resource_prefix ?m ''calc+file://x'' = ''file://x''"
    "strip_prompt_prefix ?m ''calc_bye'' = ''bye''"
    by (simp_all add: MountedServer_init_def strip_tool_prefix_def strip_resource_prefix_def
        strip_prompt_prefix_def removeprefix_def)
  have no_mounts_M: "p_mounted_servers example_M = []"
    by (simp add: example_M_def)
  have target: "servers example_world (server ?m) = Some example_M"
    by (simp only: example_calc_server example_world_1)
  note direct = not_found_names_key_of_failing_server [OF example_world_0, where key = "''mul''"
      and uri = "''file://x''" and name = "''bye''" and run = example_run and rd = example_read
      and mime_type = example_mime_type and render = example_render
      and to_jsonable_python = length and arguments = 7 and prompt_arguments = 7]
  note nested = not_found_names_key_of_failing_server [OF example_world_0, where key = "''calc_mul''"
      and uri = "''calc+file://x''" and name = "''calc_bye''" and m = ?m and target = example_M
      and run = example_run and rd = example_read
      and mime_type = example_mime_type and render = example_render
      and to_jsonable_python = length and arguments = 7 and prompt_arguments = 7]
  from direct absent_R no_match
  have 1: "mcp_call_tool example_run example_world 0 ''mul'' 7
        = Some (Inl (NotFoundError ''Unknown tool: mul''))"
    and 2: "mcp_read_resource example_read example_mime_type example_world 0 ''file://x''
        = Some (Inl (NotFoundError ''Unknown resource: file://x''))"
    and 3: "mcp_get_prompt example_render length example_world 0 ''bye'' 7
        = Some (Inl (NotFoundError ''Unknown prompt: bye''))"
    by simp_all
  from nested absent_R absent_M matches strips no_mounts_M target
  have 4: "mcp_call_tool example_run example_world 0 ''calc_mul'' 7
        = Some (Inl (NotFoundError ''Unknown tool: mul''))"
    and 5: "mcp_read_resource example_read example_mime_type example_world 0 ''calc+file://x''
        = Some (Inl (NotFoundError ''Unknown resource: file://x''))"
    and 6: "mcp_get_prompt example_render length example_world 0 ''calc_bye'' 7
        = Some (Inl (NotFoundError ''Unknown prompt: bye''))"
    by simp_all
  from 1 2 3 4 5 6 show ?thesis by simp
qed

text \<open>
  Claim C8. When the local resource registry has the URI and the resource's own read
  raises an exception, the dispatcher raises \<open>ResourceError\<close> with the text of that
  exception; this is no \<open>NotFoundError\<close>, which is what an unresolved URI gives. A
  read that returns gives the content with the resource's MIME type.
\<close>

theorem read_failure_is_resource_error:
  assumes "servers st self = Some srv"
    and "dict_get (resources (p_resource_manager srv)) uri = Some resource"
  shows
    "(rd resource = Inl text \<longrightarrow>
        mcp_read_resource rd mime_type st self uri = Some (Inl (ResourceError text))
        \<and> mcp_read_resource rd mime_type st self uri \<noteq> Some (Inl (NotFoundError other_text)))
     \<and> (rd resource = Inr content \<longrightarrow>
        mcp_read_resource rd mime_type st self uri = Some (Inr [(content, mime_type resource)]))
     \<and> (\<not> has_resource (p_resource_manager srv) uri'
          \<and> (\<forall>m\<in>set (map snd (p_mounted_servers srv)). \<not> match_resource m uri') \<longrightarrow>
        mcp_read_resource rd mime_type st self uri'
          = Some (Inl (NotFoundError (''Unknown resource: '' @ uri'))))"
proof (intro conjI impI)
  assume "rd resource = Inl text"
  with read_resource_local [OF assms, of rd mime_type]
  show "mcp_read_resource rd mime_type st self uri = Some (Inl (ResourceError text))"
    by simp
  then show "mcp_read_resource rd mime_type st self uri \<noteq> Some (Inl (NotFoundError other_text))"
    by simp
next
  assume "rd resource = Inr content"
  with read_resource_local [OF assms, of rd mime_type]
  show "mcp_read_resource rd mime_type st self uri = Some (Inr [(content, mime_type resource)])"
    by simp
next
  assume h: "\<not> has_resource (p_resource_manager srv) uri'
      \<and> (\<forall>m\<in>set (map snd (p_mounted_servers srv)). \<not> match_resource m uri')"
  then have "first_match match_resource (map snd (p_mounted_servers srv)) uri' = None"
    by (simp add: first_match_None)
  with h show "mcp_read_resource rd mime_type st self uri'
      = Some (Inl (NotFoundError (''Unknown resource: '' @ uri')))"
    by (simp add: read_resource_unknown [OF assms(1)])
qed

theorem read_failure_is_resource_error_witness:
  "mcp_read_resource example_read example_mime_type example_world 0 ''file://broken''
     = Some (Inl (ResourceError ''disk failure''))
   \<and> mcp_read_resource example_read example_mime_type example_world 1 ''weather://forecast''
     = Some (Inr [(''content of M.forecast'', ''text/plain'')])
   \<and> mcp_read_resource example_read example_mime_type example_world 0 ''file://x''
     = Some (Inl (NotFoundError ''Unknown resource: file://x''))"
proof -
  have broken: "dict_get (resources (p_resource_manager example_R)) ''file://broken'' = Some ''R.broken''"
    by (simp add: example_R_def dict_get_def)
  have forecast:
    "dict_get (resources (p_resource_manager example_M)) ''weather://forecast'' = Some ''M.forecast''"
    by (simp add: example_M_def dict_get_def)
  have absent: "\<not> has_resource (p_resource_manager example_R) ''file://x''"
    by (simp add: example_R_def has_resource_def dict_contains_def)
  have no_match: "\<forall>m\<in>set (map snd (p_mounted_servers example_R)). \<not> match_resource m ''file://x''"
    by (simp add: example_R_def MountedServer_init_def match_resource_def)
  have raises: "example_read ''R.broken'' = Inl ''disk failure''"
    by (simp add: example_read_def)
  have returns: "example_read ''M.forecast'' = Inr ''content of M.forecast''"
    by (simp add: example_read_def)
  from read_failure_is_resource_error [OF example_world_0 broken, of example_read "''disk failure''"
      example_mime_type _ _ "''file://x''"] raises absent no_match
  have 1: "mcp_read_resource example_read example_mime_type example_world 0 ''file://broken''
        = Some (Inl (ResourceError ''disk failure''))"
    and 2: "mcp_read_resource example_read example_mime_type example_world 0 ''file://x''
        = Some (Inl (NotFoundError ''Unknown resource: file://x''))"
    by simp_all
  from read_failure_is_resource_error [OF example_world_1 forecast, of example_read _
      example_mime_type _ "''content of M.forecast''"] returns
  have 3: "mcp_read_resource example_read example_mime_type example_world 1 ''weather://forecast''
        = Some (Inr [(''content of M.forecast'', ''text/plain'')])"
    by (simp add: example_mime_type_def)
  from 1 2 3 show ?thesis by simp
qed

section \<open>Mounting and unmounting\<close>

lemma dict_get_pop:
  "dict_get (filter (\<lambda>(k', v). k' \<noteq> k) d) p = (if p = k then None else dict_get d p)"
  by (induction d) (auto simp: dict_get_def)

lemma dict_contains_pop: "\<not> dict_contains (filter (\<lambda>(k', v). k' \<noteq> k) d) k"
  by (simp add: dict_contains_iff dict_get_pop)

text \<open>
  Claim C9, as stated, fails in its second half: unmounting a prefix that was never
  mounted raises the \<open>KeyError\<close> of \<open>dict.pop\<close>, which is no \<open>ConfigurationError\<close>.
\<close>

theorem unmount_unknown_prefix_counterexample:
  "\<not> dict_contains (p_mounted_servers example_R) ''math''
   \<and> unmount example_R ''math'' = Inl (KeyError ''math'')
   \<and> \<not> is_ConfigurationError (KeyError ''math'')
   \<and> unmount example_R ''math'' \<noteq> Inl (ConfigurationError ''math'')"
  by (simp add: unmount_def dict_pop_def dict_contains_def example_R_def)

text \<open>
  Claim C9, amended. Unmounting a mounted prefix removes that binding, keeps the other
  bindings in their order, and clears the cache; unmounting a prefix that is not mounted
  raises \<open>KeyError\<close> with the prefix, before anything is changed.
\<close>

theorem unmount_removes_binding_or_key_error:
  "(dict_contains (p_mounted_servers self) pfx \<longrightarrow>
      (\<exists>self'. unmount self pfx = Inr self'
         \<and> \<not> dict_contains (p_mounted_servers self') pfx
         \<and> p_mounted_servers self' = filter (\<lambda>(k, m). k \<noteq> pfx) (p_mounted_servers self)
         \<and> (\<forall>p. p \<noteq> pfx \<longrightarrow>
               dict_get (p_mounted_servers self') p = dict_get (p_mounted_servers self) p)
         \<and> cache (p_cache self') = []
         \<and> p_tool_manager self' = p_tool_manager self
         \<and> p_resource_manager self' = p_resource_manager self
         \<and> p_prompt_manager self' = p_prompt_manager self))
   \<and> (\<not> dict_contains (p_mounted_servers self) pfx \<longrightarrow> unmount self pfx = Inl (KeyError pfx))"
  by (simp add: unmount_def dict_pop_def dict_contains_pop dict_get_pop TimedCache_clear_def
      dict_clear_def)

theorem unmount_removes_binding_or_key_error_witness:
  "(\<exists>self'. unmount example_R ''calc'' = Inr self' \<and> p_mounted_servers self' = []
      \<and> cache (p_cache self') = [])
   \<and> unmount example_R ''math'' = Inl (KeyError ''math'')"
proof -
  have present: "dict_contains (p_mounted_servers example_R) ''calc''"
    by (simp add: example_R_def dict_contains_def)
  have absent: "\<not> dict_contains (p_mounted_servers example_R) ''math''"
    by (simp add: example_R_def dict_contains_def)
  have rest: "filter (\<lambda>(k, m). k \<noteq> ''calc'') (p_mounted_servers example_R) = []"
    by (simp add: example_R_def)
  from unmount_removes_binding_or_key_error [of example_R "''calc''"] present rest
  have 1: "\<exists>self'. unmount example_R ''calc'' = Inr self' \<and> p_mounted_servers self' = []
      \<and> cache (p_cache self') = []"
    by auto
  from unmount_removes_binding_or_key_error [of example_R "''math''"] absent
  have 2: "unmount example_R ''math'' = Inl (KeyError ''math'')"
    by simp
  from 1 2 show ?thesis by simp
qed

section \<open>Listing\<close>



lemma forget_cache_cache [simp]: "forget_cache (srv\<lparr> p_cache := (p_cache srv)\<lparr> cache := d \<rparr> \<rparr>) = forget_cache srv"
  by (simp add: forget_cache_def)


lemma registries_reads [simp]: "registries (st\<lparr> reads := n \<rparr>) = registries st"
  by (simp add: registries_def fun_eq_iff)
















section \<open>Precedence of local items in a listing\<close>





section \<open>Mutations and the cache\<close>







lemma cache_get_hit:
  "dict_get (cache c) key = Some (items, expires) \<Longrightarrow> clock (reads st) < expires \<Longrightarrow>
   cache_get clock c key st = (Found items, st\<lparr> reads := Suc (reads st) \<rparr>)"
  by (simp add: cache_get_def TimedCache_get_def)

lemma get_items_hit:
  "servers st self = Some srv \<Longrightarrow>
   dict_get (cache (p_cache srv)) (cache_key cat) = Some (items, expires) \<Longrightarrow>
   clock (reads st) < expires \<Longrightarrow>
   get_items (Suc n) clock cat st self = Some (Inr items, st\<lparr> reads := Suc (reads st) \<rparr>)"
  by (simp add: cache_get_hit)















section \<open>Import\<close>











section \<open>A listing does not depend on servers that it does not reach\<close>



lemma cache_get_servers:
  "cache_get clock c key (st\<lparr> servers := f \<rparr>)
     = (fst (cache_get clock c key st), (snd (cache_get clock c key st))\<lparr> servers := f \<rparr>)"
  by (simp add: cache_get_def split: option.splits)




section \<open>A listing shows the items of the mounted servers\<close>








lemma cached_listing_has_servers:
  "servers s' tgt = servers s tgt \<Longrightarrow> cached_listing_has cat tgt key s \<Longrightarrow>
   cached_listing_has cat tgt key s'"
  by (simp add: cached_listing_has_def)





section \<open>Import is a copy, mount is live\<close>






end
